theory Spec2Isabelle
  imports Complex_Main
begin

section \<open>Floating-point values\<close>

text \<open>
  The nodes compute on C++ \<open>float\<close> and \<open>double\<close> values. They are modelled by one type
  that keeps the special values of IEEE 754 apart from the finite ones: a finite value is
  a real number (rounding, overflow to infinity and the sign of zero are idealised away;
  a zero divisor counts as \<open>+0\<close>), and \<open>PInf\<close>, \<open>NInf\<close> and \<open>NaN\<close> behave as in IEEE 754:
  \<open>NaN\<close> is absorbing, every comparison with \<open>NaN\<close> is false, \<open>inf - inf\<close>, \<open>0 * inf\<close>,
  \<open>inf / inf\<close> and \<open>0 / 0\<close> are \<open>NaN\<close>. A statement that would hold of the exact values
  and not of the rounded ones is not made on this type: the lines it is about are
  written out once more with their rounding, further down.
\<close>

datatype double = Fin real | PInf | NInf | NaN

instantiation double :: "{plus, minus, uminus, times, inverse, ord}"
begin

fun uminus_double :: "double \<Rightarrow> double" where
  "uminus_double (Fin a) = Fin (- a)"
| "uminus_double PInf = NInf"
| "uminus_double NInf = PInf"
| "uminus_double NaN = NaN"

fun plus_double :: "double \<Rightarrow> double \<Rightarrow> double" where
  "plus_double NaN y = NaN"
| "plus_double x NaN = NaN"
| "plus_double (Fin a) (Fin b) = Fin (a + b)"
| "plus_double PInf NInf = NaN"
| "plus_double NInf PInf = NaN"
| "plus_double PInf y = PInf"
| "plus_double NInf y = NInf"
| "plus_double (Fin a) y = y"

definition minus_double :: "double \<Rightarrow> double \<Rightarrow> double" where
  "minus_double x y = x + (- y)"

fun times_double :: "double \<Rightarrow> double \<Rightarrow> double" where
  "times_double NaN y = NaN"
| "times_double x NaN = NaN"
| "times_double (Fin a) (Fin b) = Fin (a * b)"
| "times_double (Fin a) PInf = (if 0 < a then PInf else if a < 0 then NInf else NaN)"
| "times_double (Fin a) NInf = (if 0 < a then NInf else if a < 0 then PInf else NaN)"
| "times_double PInf (Fin b) = (if 0 < b then PInf else if b < 0 then NInf else NaN)"
| "times_double NInf (Fin b) = (if 0 < b then NInf else if b < 0 then PInf else NaN)"
| "times_double PInf PInf = PInf"
| "times_double PInf NInf = NInf"
| "times_double NInf PInf = NInf"
| "times_double NInf NInf = PInf"

fun divide_double :: "double \<Rightarrow> double \<Rightarrow> double" where
  "divide_double NaN y = NaN"
| "divide_double x NaN = NaN"
| "divide_double (Fin a) (Fin b) =
     (if b \<noteq> 0 then Fin (a / b)
      else if 0 < a then PInf else if a < 0 then NInf else NaN)"
| "divide_double (Fin a) PInf = Fin 0"
| "divide_double (Fin a) NInf = Fin 0"
| "divide_double PInf (Fin b) = (if 0 \<le> b then PInf else NInf)"
| "divide_double NInf (Fin b) = (if 0 \<le> b then NInf else PInf)"
| "divide_double PInf y = NaN"
| "divide_double NInf y = NaN"

definition inverse_double :: "double \<Rightarrow> double" where
  "inverse_double x = divide (Fin 1) x"

fun less_double :: "double \<Rightarrow> double \<Rightarrow> bool" where
  "less_double NaN y = False"
| "less_double x NaN = False"
| "less_double (Fin a) (Fin b) = (a < b)"
| "less_double (Fin a) PInf = True"
| "less_double (Fin a) NInf = False"
| "less_double PInf y = False"
| "less_double NInf (Fin b) = True"
| "less_double NInf PInf = True"
| "less_double NInf NInf = False"

fun less_eq_double :: "double \<Rightarrow> double \<Rightarrow> bool" where
  "less_eq_double NaN y = False"
| "less_eq_double x NaN = False"
| "less_eq_double (Fin a) (Fin b) = (a \<le> b)"
| "less_eq_double (Fin a) PInf = True"
| "less_eq_double (Fin a) NInf = False"
| "less_eq_double PInf PInf = True"
| "less_eq_double PInf y = False"
| "less_eq_double NInf y = True"

instance ..

end

text \<open>\<open>std::cos\<close>, \<open>std::sin\<close>, \<open>std::atan\<close>, \<open>ceil\<close> and \<open>round\<close> of \<open><cmath>\<close>.\<close>

fun dcos :: "double \<Rightarrow> double" where
  "dcos (Fin a) = Fin (cos a)"
| "dcos x = NaN"

fun dsin :: "double \<Rightarrow> double" where
  "dsin (Fin a) = Fin (sin a)"
| "dsin x = NaN"

fun datan :: "double \<Rightarrow> double" where
  "datan (Fin a) = Fin (arctan a)"
| "datan PInf = Fin (pi / 2)"
| "datan NInf = Fin (- (pi / 2))"
| "datan NaN = NaN"

fun dceil :: "double \<Rightarrow> double" where
  "dceil (Fin a) = Fin (of_int \<lceil>a\<rceil>)"
| "dceil x = x"

text \<open>\<open>round\<close> of C rounds halfway cases away from zero.\<close>

fun dround :: "double \<Rightarrow> double" where
  "dround (Fin a) = Fin (of_int (if 0 \<le> a then \<lfloor>a + 1 / 2\<rfloor> else \<lceil>a - 1 / 2\<rceil>))"
| "dround x = x"

text \<open>\<open>std::min(a, b)\<close> is \<open>(b < a) ? b : a\<close>.\<close>

definition std_min :: "double \<Rightarrow> double \<Rightarrow> double" where
  "std_min a b = (if b < a then b else a)"

text \<open>
  Conversions to integer types truncate toward zero; the behaviour is undefined
  (\<open>None\<close>) when the truncated value is not representable in the target type.
\<close>

fun to_size_t :: "double \<Rightarrow> nat option" where
  "to_size_t (Fin a) = (if - 1 < a \<and> a < 2 ^ 64 then Some (nat \<lfloor>a\<rfloor>) else None)"
| "to_size_t x = None"

definition int_ok :: "int \<Rightarrow> bool" where
  "int_ok k \<longleftrightarrow> - (2 ^ 31) \<le> k \<and> k < 2 ^ 31"

fun to_int :: "double \<Rightarrow> int option" where
  "to_int (Fin a) =
     (let k = (if 0 \<le> a then \<lfloor>a\<rfloor> else \<lceil>a\<rceil>) in if int_ok k then Some k else None)"
| "to_int x = None"

section \<open>safety\_node: the car perimeter\<close>

record car_intrinsics =
  width :: double
  wheelbase :: double
  base_link :: double

record lidar_intrinsics =
  num_scans :: double
  scan_inc :: double
  min_angle :: double
  max_angle :: double

text \<open>
  A \<open>std::vector<double>\<close>: \<open>elems\<close> are its \<open>size()\<close> elements, \<open>vcap\<close> is its capacity,
  and \<open>raw\<close> records what has been stored into allocated cells at or past \<open>size()\<close>.
  \<open>reserve\<close> only grows the capacity. \<open>operator[]\<close> checks no bound: an assignment below
  \<open>size()\<close> updates the element; one between \<open>size()\<close> and the capacity is outside the
  contract of \<open>operator[]\<close>, and what the usual implementations do is modelled: the value
  lands in the allocation and \<open>size()\<close> stays as it is; one outside the allocation is
  undefined (\<open>None\<close>).
\<close>

record vec =
  elems :: "double list"
  vcap :: nat
  raw :: "nat \<Rightarrow> double option"

definition vec_empty :: vec where
  "vec_empty = \<lparr>elems = [], vcap = 0, raw = (\<lambda>_. None)\<rparr>"

definition vec_reserve :: "nat \<Rightarrow> vec \<Rightarrow> vec" where
  "vec_reserve n v = v\<lparr>vcap := max n (vcap v)\<rparr>"

definition vec_assign :: "vec \<Rightarrow> nat \<Rightarrow> double \<Rightarrow> vec option" where
  "vec_assign v i x =
     (if i < length (elems v) then Some (v\<lparr>elems := (elems v)[i := x]\<rparr>)
      else if i < vcap v then Some (v\<lparr>raw := (raw v)(i \<mapsto> x)\<rparr>)
      else None)"

text \<open>The four branches of the loop body of \<open>compute_car_perim\<close>, named as its comments do.\<close>

definition first_quadrant :: "car_intrinsics \<Rightarrow> double \<Rightarrow> double" where
  "first_quadrant car_data angle =
     (let right_side = (width car_data / Fin 2) / dcos angle;
          top_right = (wheelbase car_data - base_link car_data) / dcos (Fin (pi / 2) - angle)
      in std_min right_side top_right)"

definition second_quadrant :: "car_intrinsics \<Rightarrow> double \<Rightarrow> double" where
  "second_quadrant car_data angle =
     (let top_left = (wheelbase car_data - base_link car_data) / dcos (angle - Fin (pi / 2));
          left_side = (width car_data / Fin 2) / dcos (Fin pi - angle)
      in std_min left_side top_left)"

definition third_quadrant :: "car_intrinsics \<Rightarrow> double \<Rightarrow> double" where
  "third_quadrant car_data angle =
     (let left_side = (width car_data / Fin 2) / dcos (Fin pi + angle);
          bottom_left = base_link car_data / dcos (- angle - Fin (pi / 2))
      in std_min left_side bottom_left)"

definition fourth_quadrant :: "car_intrinsics \<Rightarrow> double \<Rightarrow> double" where
  "fourth_quadrant car_data angle =
     (let bottom_right = base_link car_data / dcos (Fin (pi / 2) - angle);
          right_side = (width car_data / Fin 2) / dcos (- angle)
      in std_min bottom_right right_side)"

definition perim_at :: "car_intrinsics \<Rightarrow> double \<Rightarrow> double" where
  "perim_at car_data angle =
     (if Fin 0 < angle
      then (if angle < Fin (pi / 2) then first_quadrant car_data angle
            else second_quadrant car_data angle)
      else (if angle < Fin (- pi / 2) then third_quadrant car_data angle
            else fourth_quadrant car_data angle))"

text \<open>
  The loop \<open>for (size_t i = min_angle; i < num_scans; i++) car_perim[i] = ...\<close>.
  The variable \<open>angle\<close> is set before the loop and the body never assigns it.
\<close>

function perim_loop ::
  "car_intrinsics \<Rightarrow> lidar_intrinsics \<Rightarrow> double \<Rightarrow> nat \<Rightarrow> vec \<Rightarrow> vec option" where
  "perim_loop car_data lidar_data angle i car_perim =
     (if Fin (real i) < num_scans lidar_data
      then (case vec_assign car_perim i (perim_at car_data angle) of
              None \<Rightarrow> None
            | Some car_perim' \<Rightarrow> perim_loop car_data lidar_data angle (Suc i) car_perim')
      else Some car_perim)"
  by pat_completeness auto
termination
  by (relation "measure (\<lambda>(car_data, lidar_data, angle, i, car_perim).
        max (vcap car_perim) (length (elems car_perim)) - i)")
     (auto simp: vec_assign_def split: if_splits)

declare perim_loop.simps [simp del]

definition compute_car_perim :: "car_intrinsics \<Rightarrow> lidar_intrinsics \<Rightarrow> vec option" where
  "compute_car_perim car_data lidar_data =
     (case to_size_t (num_scans lidar_data) of
        None \<Rightarrow> None
      | Some n \<Rightarrow>
          (let car_perim = vec_reserve n vec_empty;
               angle = min_angle lidar_data
           in case to_size_t (min_angle lidar_data) of
                None \<Rightarrow> None
              | Some i \<Rightarrow> perim_loop car_data lidar_data angle i car_perim))"

section \<open>safety\_node: the Safety class\<close>

text \<open>
  A \<open>sensor_msgs/LaserScan\<close> message: the range readings may be infinite or NaN, the
  angles of its header are finite. A \<open>nav_msgs/Odometry\<close> message is read only at
  \<open>twist.twist.linear.x\<close>.
\<close>

record scan =
  ranges :: "double list"
  angle_min :: real
  angle_max :: real
  angle_increment :: real

record odometry =
  twist_linear_x :: double

text \<open>
  The member \<open>brake_msg\<close>: the \<open>std_msgs/Bool\<close> and the drive message, of which the node
  sets the speed only.
\<close>

record brake_msg_t =
  brake :: bool
  brake_speed :: double

record safety =
  car_perimeter :: "double list"
  lidar :: lidar_intrinsics
  car :: car_intrinsics
  ttc_threshold :: double
  speed :: double
  brake_msg :: brake_msg_t

text \<open>
  The parameters read by \<open>getParam\<close>, which leaves its variable alone when the parameter
  is not set.
\<close>

record safety_params =
  param_width :: "double option"
  param_scan_distance_to_base_link :: "double option"
  param_wheelbase :: "double option"
  param_scan_beams :: "double option"

definition getParam :: "'a option \<Rightarrow> 'a \<Rightarrow> 'a" where
  "getParam p v = (case p of None \<Rightarrow> v | Some x \<Rightarrow> x)"

text \<open>
  The constructor. \<open>shared\<close> is the message \<open>waitForMessage\<close> returned (\<open>None\<close> for a null
  pointer); \<open>lidar0\<close> and \<open>car0\<close> are the indeterminate values of the members \<open>lidar\<close> and
  \<open>car\<close> before anything is stored into them. The member \<open>car_perimeter\<close> is default
  constructed, and the vector \<open>compute_car_perim\<close> returns is not stored anywhere.
\<close>

definition Safety_init ::
  "safety_params \<Rightarrow> scan option \<Rightarrow> lidar_intrinsics \<Rightarrow> car_intrinsics \<Rightarrow> safety option" where
  "Safety_init prm shared lidar0 car0 =
     (let lidar1 =
            (case shared of
               None \<Rightarrow> lidar0
             | Some m \<Rightarrow>
                 (let l1 = lidar0\<lparr>scan_inc := Fin (angle_increment m)\<rparr>;
                      l2 = l1\<lparr>max_angle := Fin (angle_max m)\<rparr>;
                      l3 = l2\<lparr>min_angle := Fin (angle_max m)\<rparr>
                  in l3\<lparr>num_scans := (max_angle l3 - min_angle l3) / scan_inc l3\<rparr>));
          car1 = car0\<lparr>width := getParam (param_width prm) (width car0)\<rparr>;
          car2 = car1\<lparr>base_link :=
                   getParam (param_scan_distance_to_base_link prm) (base_link car1)\<rparr>;
          car3 = car2\<lparr>wheelbase := getParam (param_wheelbase prm) (wheelbase car2)\<rparr>;
          lidar2 = lidar1\<lparr>num_scans := getParam (param_scan_beams prm) (num_scans lidar1)\<rparr>
      in case compute_car_perim car3 lidar2 of
           None \<Rightarrow> None
         | Some unused \<Rightarrow>
             Some \<lparr>car_perimeter = [], lidar = lidar2, car = car3,
                   ttc_threshold = Fin 0.01, speed = Fin 0,
                   brake_msg = \<lparr>brake = True, brake_speed = Fin 0\<rparr>\<rparr>)"

definition odom_callback :: "safety \<Rightarrow> odometry \<Rightarrow> safety" where
  "odom_callback s odom_msg = s\<lparr>speed := twist_linear_x odom_msg\<rparr>"

text \<open>What a callback publishes: a Bool on \<open>/brake_bool\<close>, a drive speed on \<open>/brake\<close>.\<close>

datatype pub = BrakeBool bool | BrakeDrive double

datatype scan_result = Rejected | Published "pub list"

text \<open>The two locals of the loop body of \<open>scan_callback\<close>.\<close>

definition r_hat :: "double \<Rightarrow> scan \<Rightarrow> nat \<Rightarrow> double" where
  "r_hat spd scan_msg i =
     spd * dcos (Fin (real i * angle_increment scan_msg + angle_min scan_msg))"

definition ttc :: "double list \<Rightarrow> double \<Rightarrow> scan \<Rightarrow> nat \<Rightarrow> double" where
  "ttc perim spd scan_msg i = (ranges scan_msg ! i - perim ! i) / r_hat spd scan_msg i"

definition scan_beam :: "safety \<Rightarrow> scan \<Rightarrow> nat \<Rightarrow> pub list" where
  "scan_beam s scan_msg i =
     (if r_hat (speed s) scan_msg i \<le> Fin 0 then []
      else if ttc (car_perimeter s) (speed s) scan_msg i < ttc_threshold s
           then [BrakeBool (brake (brake_msg s)), BrakeDrive (brake_speed (brake_msg s))]
           else [])"

fun scan_loop :: "safety \<Rightarrow> scan \<Rightarrow> nat list \<Rightarrow> pub list" where
  "scan_loop s scan_msg [] = []"
| "scan_loop s scan_msg (i # js) = scan_beam s scan_msg i @ scan_loop s scan_msg js"

text \<open>
  \<open>scan_callback\<close> stores into no member; its result is what it publishes. Past the
  length check every index the loop reads is inside both vectors.
\<close>

definition scan_callback :: "safety \<Rightarrow> scan \<Rightarrow> scan_result" where
  "scan_callback s scan_msg =
     (if length (ranges scan_msg) \<noteq> length (car_perimeter s) then Rejected
      else Published (scan_loop s scan_msg [0..<length (ranges scan_msg)]))"

fun published :: "scan_result \<Rightarrow> pub list" where
  "published Rejected = []"
| "published (Published out) = out"

definition brake_engaged :: "scan_result \<Rightarrow> bool" where
  "brake_engaged r \<longleftrightarrow>
     BrakeBool True \<in> set (published r) \<and> BrakeDrive (Fin 0) \<in> set (published r)"

text \<open>
  The states of the node: the constructor's, then one callback after another, in the
  order the messages arrive.
\<close>

datatype event = OdomMsg odometry | ScanMsg scan

fun step :: "safety \<Rightarrow> event \<Rightarrow> safety" where
  "step s (OdomMsg m) = odom_callback s m"
| "step s (ScanMsg m) = s"

fun run :: "safety \<Rightarrow> event list \<Rightarrow> safety" where
  "run s [] = s"
| "run s (e # es) = run (step s e) es"

section \<open>point\_dist\<close>

text \<open>The \<open>point_dist/PointDist\<close> message and the two topics it is published on.\<close>

record point_dist =
  distance :: double
  angle :: double

datatype point_pub = FartherPoint point_dist | ClosestPoint point_dist

text \<open>The loop of \<open>scan_cb\<close>, from index \<open>i\<close> on, over the locals \<open>max\<close> and \<open>min\<close>.\<close>

function scan_cb_loop :: "scan \<Rightarrow> nat \<Rightarrow> point_dist \<times> point_dist \<Rightarrow> point_dist \<times> point_dist" where
  "scan_cb_loop msg i (mx, mn) =
     (if i < length (ranges msg)
      then
        (let mx' = (if distance mx < ranges msg ! i
                    then \<lparr>distance = ranges msg ! i,
                          angle = Fin (angle_min msg + real i * angle_increment msg)\<rparr>
                    else mx);
             mn' = (if distance mn > ranges msg ! i
                    then \<lparr>distance = ranges msg ! i,
                          angle = Fin (angle_min msg + real i * angle_increment msg)\<rparr>
                    else mn)
         in scan_cb_loop msg (Suc i) (mx', mn'))
      else (mx, mn))"
  by pat_completeness auto
termination
  by (relation "measure (\<lambda>(msg, i, acc). length (ranges msg) - i)") auto

declare scan_cb_loop.simps [simp del]

text \<open>
  \<open>scan_cb\<close> reads \<open>ranges[0]\<close> before any check, which is undefined (\<open>None\<close>) on an empty
  vector.
\<close>

definition scan_cb :: "scan \<Rightarrow> point_pub list option" where
  "scan_cb msg =
     (case ranges msg of
        [] \<Rightarrow> None
      | r0 # rest \<Rightarrow>
          (let mx0 = \<lparr>distance = r0, angle = Fin (angle_min msg)\<rparr>;
               mn0 = \<lparr>distance = r0, angle = Fin (angle_min msg)\<rparr>;
               (mx, mn) = scan_cb_loop msg 1 (mx0, mn0)
           in Some [FartherPoint mx, ClosestPoint mn]))"

section \<open>wall\_follow\<close>

text \<open>
  The members of \<open>WallFollow\<close> that the constructor computes from the sample frame and
  that \<open>lidar_cb\<close> reads. \<open>L\<close> is declared and never assigned: it holds whatever value
  it had, \<open>L0\<close> below.
\<close>

record wf_lidar_data =
  wf_num_scans :: int
  wf_min_angle :: double
  wf_max_angle :: double
  wf_scan_inc :: double

record wall_follow =
  lidar_data :: wf_lidar_data
  a_idx :: int
  b_idx :: int
  L :: double
  theta :: double

datatype wf_error = Exit | Undefined

text \<open>
  The constructor: \<open>exit(-1)\<close> without a sample frame; a cast to \<open>int\<close> of a value
  outside its range, and an overflow of \<open>a_idx - b_idx\<close>, are undefined.
\<close>

definition WallFollow_init :: "scan option \<Rightarrow> double \<Rightarrow> wf_error + wall_follow" where
  "WallFollow_init tmp_scan L0 =
     (case tmp_scan of
        None \<Rightarrow> Inl Exit
      | Some m \<Rightarrow>
          (let inc = Fin (angle_increment m);
               mn = Fin (angle_min m);
               mx = Fin (angle_max m);
               theta0 = Fin (pi / 4)
           in case to_int (dceil ((mx - mn) / inc)) of
                None \<Rightarrow> Inl Undefined
              | Some n \<Rightarrow>
                  (case to_int (dround ((Fin (pi / 2) - mn) / inc)) of
                     None \<Rightarrow> Inl Undefined
                   | Some b \<Rightarrow>
                       (case to_int (dround (((Fin (pi / 2) - theta0) - mn) / inc)) of
                          None \<Rightarrow> Inl Undefined
                        | Some a \<Rightarrow>
                            if int_ok (a - b)
                            then Inr \<lparr>lidar_data =
                                       \<lparr>wf_num_scans = n, wf_min_angle = mn,
                                        wf_max_angle = mx, wf_scan_inc = inc\<rparr>,
                                     a_idx = a, b_idx = b, L = L0,
                                     theta = inc * Fin (of_int (a - b))\<rparr>
                            else Inl Undefined))))"

text \<open>\<open>ranges[k]\<close> for an \<open>int\<close> index: undefined outside the vector.\<close>

definition vec_at :: "double list \<Rightarrow> int \<Rightarrow> double option" where
  "vec_at xs k = (if 0 \<le> k \<and> nat k < length xs then Some (xs ! nat k) else None)"

text \<open>
  \<open>lidar_cb\<close> stores into no member and publishes nothing; its result here is the
  locals it computes. The line that would compute \<open>dt_1\<close> from \<open>L\<close> is a comment in the
  source.
\<close>

record lidar_cb_locals =
  val_a :: double
  val_b :: double
  val_alpha :: double
  val_dt :: double

definition lidar_cb :: "wall_follow \<Rightarrow> scan \<Rightarrow> lidar_cb_locals option" where
  "lidar_cb w msg =
     (case vec_at (ranges msg) (a_idx w) of
        None \<Rightarrow> None
      | Some a \<Rightarrow>
          (case vec_at (ranges msg) (b_idx w) of
             None \<Rightarrow> None
           | Some b \<Rightarrow>
               (let alpha = datan ((a * dcos (theta w) - b) / (a * dsin (theta w)));
                    dt = b * dcos alpha
                in Some \<lparr>val_a = a, val_b = b, val_alpha = alpha, val_dt = dt\<rparr>)))"

section \<open>Properties of a frame and concrete inputs\<close>

text \<open>
  The angle of beam \<open>k\<close> of a frame, the record \<open>scan_cb\<close> builds for it, and what it means
  for \<open>k\<close> to be the first index among the first \<open>n\<close> readings that holds their largest
  (smallest) value.
\<close>

definition beam_angle :: "scan \<Rightarrow> nat \<Rightarrow> double" where
  "beam_angle msg k = Fin (angle_min msg + real k * angle_increment msg)"

definition at_beam :: "scan \<Rightarrow> nat \<Rightarrow> point_dist" where
  "at_beam msg k = \<lparr>distance = ranges msg ! k, angle = beam_angle msg k\<rparr>"

definition first_max :: "scan \<Rightarrow> nat \<Rightarrow> nat \<Rightarrow> bool" where
  "first_max msg n k \<longleftrightarrow>
     k < n \<and> (\<forall>j\<in>{0..<n}. ranges msg ! j \<le> ranges msg ! k)
           \<and> (\<forall>j\<in>{0..<k}. ranges msg ! j < ranges msg ! k)"

definition first_min :: "scan \<Rightarrow> nat \<Rightarrow> nat \<Rightarrow> bool" where
  "first_min msg n k \<longleftrightarrow>
     k < n \<and> (\<forall>j\<in>{0..<n}. ranges msg ! k \<le> ranges msg ! j)
           \<and> (\<forall>j\<in>{0..<k}. ranges msg ! k < ranges msg ! j)"

text \<open>The car of the scenarios: 0.2 wide, wheelbase 0.33, scanner 0.05 from the base link.\<close>

definition scenario_car :: car_intrinsics where
  "scenario_car = \<lparr>width = Fin 0.2, wheelbase = Fin 0.33, base_link = Fin 0.05\<rparr>"

text \<open>A scanner of two beams, at angles \<open>0\<close> and \<open>pi / 2\<close>.\<close>

definition two_beam_lidar :: lidar_intrinsics where
  "two_beam_lidar =
     \<lparr>num_scans = Fin 2, scan_inc = Fin (pi / 2), min_angle = Fin 0, max_angle = Fin pi\<rparr>"

text \<open>A frame of one beam at angle \<open>0\<close> (\<open>frame\<close>) or at angle \<open>pi\<close> (\<open>rear_frame\<close>).\<close>

definition frame :: "real \<Rightarrow> scan" where
  "frame r = \<lparr>ranges = [Fin r], angle_min = 0, angle_max = 0, angle_increment = 0\<rparr>"

definition rear_frame :: "real \<Rightarrow> scan" where
  "rear_frame r = \<lparr>ranges = [Fin r], angle_min = pi, angle_max = pi, angle_increment = 0\<rparr>"

text \<open>
  A state of the Safety node with a one-entry perimeter table of 0.3 and speed 2, as in
  the braking scenarios.
\<close>

definition moving :: safety where
  "moving =
     \<lparr>car_perimeter = [Fin 0.3],
      lidar = \<lparr>num_scans = Fin 1, scan_inc = Fin 0, min_angle = Fin 0, max_angle = Fin 0\<rparr>,
      car = scenario_car, ttc_threshold = Fin 0.01, speed = Fin 2,
      brake_msg = \<lparr>brake = True, brake_speed = Fin 0\<rparr>\<rparr>"

text \<open>
  A sample frame of four beams from \<open>0\<close> to \<open>pi\<close>, the parameters of the scenario car
  (no \<open>scan_beams\<close>), and some contents for the members the constructor has not set yet.
\<close>

definition sample_frame :: scan where
  "sample_frame =
     \<lparr>ranges = [Fin 1, Fin 1, Fin 1, Fin 1], angle_min = 0, angle_max = pi,
      angle_increment = pi / 4\<rparr>"

definition car_params :: safety_params where
  "car_params =
     \<lparr>param_width = Some (Fin 0.2), param_scan_distance_to_base_link = Some (Fin 0.05),
      param_wheelbase = Some (Fin 0.33), param_scan_beams = None\<rparr>"

definition unset_lidar :: lidar_intrinsics where
  "unset_lidar = \<lparr>num_scans = Fin 0, scan_inc = Fin 0, min_angle = Fin 0, max_angle = Fin 0\<rparr>"

definition unset_car :: car_intrinsics where
  "unset_car = \<lparr>width = Fin 0, wheelbase = Fin 0, base_link = Fin 0\<rparr>"

text \<open>The Safety node and the WallFollow node that the sample frame gives.\<close>

definition started :: safety where
  "started =
     \<lparr>car_perimeter = [],
      lidar = \<lparr>num_scans = Fin 0, scan_inc = Fin (pi / 4), min_angle = Fin pi, max_angle = Fin pi\<rparr>,
      car = scenario_car, ttc_threshold = Fin 0.01, speed = Fin 0,
      brake_msg = \<lparr>brake = True, brake_speed = Fin 0\<rparr>\<rparr>"

definition follower :: wall_follow where
  "follower =
     \<lparr>lidar_data = \<lparr>wf_num_scans = 4, wf_min_angle = Fin 0, wf_max_angle = Fin pi,
                     wf_scan_inc = Fin (pi / 4)\<rparr>,
      a_idx = 1, b_idx = 2, L = Fin 1, theta = Fin (- (pi / 4))\<rparr>"

text \<open>
  Frames for the wall follower: one whose beam \<open>a_idx\<close> has no return, one of a wall at
  an angle.
\<close>

definition no_return_frame :: scan where
  "no_return_frame = sample_frame\<lparr>ranges := [Fin 1, PInf, Fin 1, Fin 1]\<rparr>"

definition tilted_frame :: scan where
  "tilted_frame = sample_frame\<lparr>ranges := [Fin 1, Fin 1, Fin (sqrt 2), Fin 1]\<rparr>"

definition five_beams :: scan where
  "five_beams =
     \<lparr>ranges = [Fin 2, PInf, Fin 1, PInf, Fin 1], angle_min = - 1, angle_max = 1,
      angle_increment = 1 / 2\<rparr>"





text \<open>
  Frames of three beams at \<open>0\<close>, \<open>pi / 2\<close> and \<open>pi\<close>, and the state \<open>moving\<close> with a table of
  three entries.
\<close>

definition fan_frame :: "real list \<Rightarrow> scan" where
  "fan_frame rs =
     \<lparr>ranges = map Fin rs, angle_min = 0, angle_max = 3 * pi / 2, angle_increment = pi / 2\<rparr>"

definition fan_moving :: safety where
  "fan_moving = moving\<lparr>car_perimeter := [Fin 0.3, Fin 0.3, Fin 0.3]\<rparr>"

text \<open>A frame of one beam at angle \<open>pi / 3\<close>.\<close>

definition side_frame :: "real \<Rightarrow> scan" where
  "side_frame r =
     \<lparr>ranges = [Fin r], angle_min = pi / 3, angle_max = pi / 3, angle_increment = 0\<rparr>"

section \<open>safety\_node: the time to collision with its rounding\<close>

text \<open>
  The two assignments of the loop body of \<open>scan_callback\<close> once more, with the rounding of
  every operation written out. \<open>i * angle_increment + angle_min\<close> is computed in \<open>float\<close>
  (the index is converted first) and \<open>std::cos\<close> of a \<open>float\<close> returns a \<open>float\<close>; the product
  with \<open>speed\<close>, the difference \<open>ranges[i] - car_perimeter[i]\<close> and the quotient are computed
  in \<open>double\<close>. \<open>fl32\<close> rounds an exact result to \<open>float\<close> and \<open>cos32\<close> is the library's cosine
  on \<open>float\<close>; \<open>fl64\<close> rounds an exact result to \<open>double\<close> and may overflow to an infinity.
  An operation whose exact result is already infinite or NaN is not rounded.
\<close>

record fpu =
  fl64 :: "real \<Rightarrow> double"
  fl32 :: "real \<Rightarrow> real"
  cos32 :: "real \<Rightarrow> real"

definition rnd :: "(real \<Rightarrow> double) \<Rightarrow> double \<Rightarrow> double" where
  "rnd fl x = (case x of Fin a \<Rightarrow> fl a | PInf \<Rightarrow> PInf | NInf \<Rightarrow> NInf | NaN \<Rightarrow> NaN)"

definition r_hat_fl :: "fpu \<Rightarrow> double \<Rightarrow> scan \<Rightarrow> nat \<Rightarrow> double" where
  "r_hat_fl u spd scan_msg i =
     rnd (fl64 u)
       (spd * Fin (cos32 u (fl32 u (fl32 u (fl32 u (real i) * angle_increment scan_msg)
                                      + angle_min scan_msg))))"

definition ttc_fl :: "fpu \<Rightarrow> double list \<Rightarrow> double \<Rightarrow> scan \<Rightarrow> nat \<Rightarrow> double" where
  "ttc_fl u perim spd scan_msg i =
     rnd (fl64 u) (rnd (fl64 u) (ranges scan_msg ! i - perim ! i) / r_hat_fl u spd scan_msg i)"

text \<open>No rounding at all: this is the arithmetic of \<open>r_hat\<close> and \<open>ttc\<close> above.\<close>

definition exact_fpu :: fpu where
  "exact_fpu = \<lparr>fl64 = Fin, fl32 = (\<lambda>x. x), cos32 = cos\<rparr>"

text \<open>
  Rounding to the nearest multiple of \<open>1 / 2 ^ k\<close>, ties to the even multiple. For
  \<open>k = 55\<close> these are the values of binary64 between \<open>1 / 8\<close> and \<open>1 / 4\<close>, and \<open>1 / 2\<close>,
  \<open>3 + 1 / 2 ^ 51\<close> and \<open>3 + 1 / 2 ^ 50\<close>, two neighbours in binary64, are among the
  multiples.
\<close>

definition round_even :: "real \<Rightarrow> int" where
  "round_even x =
     (if x - of_int \<lfloor>x\<rfloor> < 1 / 2 then \<lfloor>x\<rfloor>
      else if 1 / 2 < x - of_int \<lfloor>x\<rfloor> then \<lfloor>x\<rfloor> + 1
      else if even \<lfloor>x\<rfloor> then \<lfloor>x\<rfloor> else \<lfloor>x\<rfloor> + 1)"

definition to_grid :: "nat \<Rightarrow> real \<Rightarrow> real" where
  "to_grid k x = of_int (round_even (x * 2 ^ k)) / 2 ^ k"

definition grid_fpu :: fpu where
  "grid_fpu = \<lparr>fl64 = (\<lambda>x. Fin (to_grid 55 x)), fl32 = to_grid 24, cos32 = cos\<rparr>"

section \<open>Comparisons of floating-point values\<close>

lemma divide_NaN_right: "(x::double) / NaN = NaN"
  by (cases x) simp_all

lemma double_not_less: "x \<noteq> NaN \<Longrightarrow> y \<noteq> NaN \<Longrightarrow> \<not> x < y \<longleftrightarrow> y \<le> (x::double)"
  by (cases x; cases y) auto

lemma double_le_refl: "x \<noteq> NaN \<Longrightarrow> x \<le> (x::double)"
  by (cases x) auto

lemma double_le_less_trans: "x \<le> y \<Longrightarrow> y < z \<Longrightarrow> x < (z::double)"
  by (cases x; cases y; cases z) auto

lemma double_less_le_trans: "x < y \<Longrightarrow> y \<le> z \<Longrightarrow> x < (z::double)"
  by (cases x; cases y; cases z) auto

lemma double_less_imp_le: "x < y \<Longrightarrow> x \<le> (y::double)"
  by (cases x; cases y) auto

section \<open>The brake of the Safety node\<close>

lemma closing_guard:
  "(\<not> r \<le> Fin 0 \<and> (x::double) / r < t) \<longleftrightarrow> (Fin 0 < r \<and> x / r < t)"
  by (cases r) (auto simp: divide_NaN_right)

lemma scan_beam_nonempty:
  "scan_beam s m i \<noteq> [] \<longleftrightarrow>
     Fin 0 < r_hat (speed s) m i \<and> ttc (car_perimeter s) (speed s) m i < ttc_threshold s"
  using closing_guard [of "r_hat (speed s) m i" "ranges m ! i - car_perimeter s ! i" "ttc_threshold s"]
  by (auto simp: scan_beam_def ttc_def)

lemma set_scan_beam:
  "set (scan_beam s m i) =
     (if scan_beam s m i = [] then {}
      else {BrakeBool (brake (brake_msg s)), BrakeDrive (brake_speed (brake_msg s))})"
  by (auto simp: scan_beam_def)

lemma set_scan_loop:
  "set (scan_loop s m js) =
     (if \<exists>i\<in>set js. scan_beam s m i \<noteq> []
      then {BrakeBool (brake (brake_msg s)), BrakeDrive (brake_speed (brake_msg s))} else {})"
  by (induction js) (auto simp: set_scan_beam)

text \<open>
  What \<open>scan_callback\<close> does in a state whose table has as many entries as the frame has
  ranges, with the brake message the constructor prepares: it publishes the brake boolean
  and the zero-speed drive command if and only if some beam index \<open>i\<close> has a closing
  velocity \<open>speed * cos (angle_min + i * angle_increment)\<close> above zero and a time to
  collision \<open>(ranges[i] - car_perimeter[i]) / closing velocity\<close> below \<open>ttc_threshold\<close>.
\<close>

lemma scan_callback_law:
  assumes "length (ranges msg) = length (car_perimeter s)"
    and "brake_msg s = \<lparr>brake = True, brake_speed = Fin 0\<rparr>"
  shows "brake_engaged (scan_callback s msg) \<longleftrightarrow>
     (\<exists>i<length (ranges msg).
        Fin 0 < speed s * dcos (Fin (angle_min msg + real i * angle_increment msg)) \<and>
        (ranges msg ! i - car_perimeter s ! i)
          / (speed s * dcos (Fin (angle_min msg + real i * angle_increment msg)))
          < ttc_threshold s)"
proof -
  have "brake_engaged (scan_callback s msg) \<longleftrightarrow>
      (\<exists>i\<in>set [0..<length (ranges msg)]. scan_beam s msg i \<noteq> [])"
    using assms by (simp add: brake_engaged_def scan_callback_def set_scan_loop)
  then show ?thesis
    by (simp add: scan_beam_nonempty Bex_def r_hat_def ttc_def add.commute)
qed

text \<open>
  In such a state, at speed 2 with table entries 0.3 and threshold 0.01: on the beam at
  angle 0 a range of 1.0 does not engage the brake and a range of 0.31 does; a range of
  0.31 on the beams at \<open>pi / 2\<close> and \<open>pi\<close>, where the closing velocity is not positive,
  does not.
\<close>

lemma scan_callback_scenarios:
  "\<not> brake_engaged (scan_callback moving (frame 1)) \<and>
   brake_engaged (scan_callback moving (frame 0.31)) \<and>
   \<not> brake_engaged (scan_callback fan_moving (fan_frame [1, 0.31, 0.31])) \<and>
   brake_engaged (scan_callback fan_moving (fan_frame [0.31, 1, 1]))"
  by (simp add: brake_engaged_def scan_callback_def scan_beam_def fan_moving_def moving_def
        frame_def fan_frame_def ttc_def r_hat_def minus_double_def upt_rec)



section \<open>The perimeter table never reaches the Safety node\<close>

lemma Safety_init_perimeter:
  "Safety_init prm shared lidar0 car0 = Some s \<Longrightarrow> car_perimeter s = []"
  by (auto simp: Safety_init_def Let_def split: option.splits)

lemma step_perimeter: "car_perimeter (step s e) = car_perimeter s"
  by (cases e) (simp_all add: odom_callback_def)

lemma run_perimeter: "car_perimeter (run s es) = car_perimeter s"
  by (induction es arbitrary: s) (simp_all add: step_perimeter)

lemma Safety_init_sample:
  "Safety_init car_params (Some sample_frame) unset_lidar unset_car = Some started"
proof -
  have "pi < 2 ^ 64" using pi_less_4 by simp
  moreover have "- 1 < pi" using pi_gt_zero by (rule less_trans [rotated]) simp
  ultimately show ?thesis
    by (simp add: Safety_init_def car_params_def sample_frame_def unset_lidar_def unset_car_def
          started_def scenario_car_def getParam_def Let_def minus_double_def
          compute_car_perim_def vec_reserve_def vec_empty_def perim_loop.simps)
qed

text \<open>
  C9. The constructor of the Safety node drops the vector \<open>compute_car_perim\<close> returns and
  no callback stores into \<open>car_perimeter\<close>, so in every state the node reaches the table is
  empty: \<open>scan_callback\<close> rejects every frame with a non-empty \<open>ranges\<close> at the length check
  and publishes nothing for any frame.
\<close>

theorem never_brakes:
  assumes "Safety_init prm shared lidar0 car0 = Some s"
  shows "car_perimeter (run s es) = [] \<and>
         (ranges msg \<noteq> [] \<longrightarrow> scan_callback (run s es) msg = Rejected) \<and>
         published (scan_callback (run s es) msg) = []"
  using Safety_init_perimeter [OF assms] by (simp add: scan_callback_def run_perimeter)

text \<open>
  The node started on the sample frame, after an odometry message of speed 2, rejects the
  frame with the single range 0.31.
\<close>

theorem never_brakes_witness:
  "Safety_init car_params (Some sample_frame) unset_lidar unset_car = Some started \<and>
   run started [OdomMsg \<lparr>twist_linear_x = Fin 2\<rparr>] = started\<lparr>speed := Fin 2\<rparr> \<and>
   car_perimeter (run started [OdomMsg \<lparr>twist_linear_x = Fin 2\<rparr>]) = [] \<and>
   scan_callback (run started [OdomMsg \<lparr>twist_linear_x = Fin 2\<rparr>]) (frame 0.31) = Rejected \<and>
   published (scan_callback (run started [OdomMsg \<lparr>twist_linear_x = Fin 2\<rparr>]) (frame 0.31)) = []"
  using never_brakes [OF Safety_init_sample, of "[OdomMsg \<lparr>twist_linear_x = Fin 2\<rparr>]" "frame 0.31"]
  by (simp add: Safety_init_sample frame_def odom_callback_def)

section \<open>Time to collision and speed\<close>

lemma r_hat_Fin:
  "r_hat (Fin s) msg i = Fin (s * cos (real i * angle_increment msg + angle_min msg))"
  by (simp add: r_hat_def)

text \<open>Without rounding, the rounded lines are the ones of \<open>scan_callback\<close> above.\<close>

lemma rnd_Fin: "rnd Fin x = x"
  by (cases x) (simp_all add: rnd_def)

lemma r_hat_exact: "r_hat_fl exact_fpu spd msg i = r_hat spd msg i"
  by (simp add: r_hat_def r_hat_fl_def exact_fpu_def rnd_Fin)

lemma ttc_exact: "ttc_fl exact_fpu perim spd msg i = ttc perim spd msg i"
  by (simp add: ttc_def ttc_fl_def r_hat_exact) (simp add: exact_fpu_def rnd_Fin)

lemma round_even_bounds: "\<lfloor>x\<rfloor> \<le> round_even x \<and> round_even x \<le> \<lfloor>x\<rfloor> + 1"
  by (simp add: round_even_def)

lemma round_even_mono: "x \<le> y \<Longrightarrow> round_even x \<le> round_even y"
proof -
  assume le: "x \<le> y"
  then have fl: "\<lfloor>x\<rfloor> \<le> \<lfloor>y\<rfloor>" by (rule floor_mono)
  show ?thesis
  proof (cases "\<lfloor>x\<rfloor> = \<lfloor>y\<rfloor>")
    case True
    with le show ?thesis by (auto simp: round_even_def)
  next
    case False
    with fl have "\<lfloor>x\<rfloor> + 1 \<le> \<lfloor>y\<rfloor>" by simp
    with round_even_bounds [of x] round_even_bounds [of y] show ?thesis by linarith
  qed
qed

lemma round_even_of_int: "round_even (of_int n) = n"
  by (simp add: round_even_def)

lemma to_grid_mono: "x \<le> y \<Longrightarrow> to_grid k x \<le> to_grid k y"
  by (simp add: to_grid_def divide_right_mono round_even_mono)

lemma to_grid_0: "to_grid k 0 = 0"
  using round_even_of_int [of 0] by (simp add: to_grid_def)

lemma grid_tie:
  "r_hat_fl grid_fpu (Fin (3 + 1 / 2 ^ 51)) (frame 1) 0 = Fin (3 + 1 / 2 ^ 51) \<and>
   r_hat_fl grid_fpu (Fin (3 + 1 / 2 ^ 50)) (frame 1) 0 = Fin (3 + 1 / 2 ^ 50) \<and>
   ttc_fl grid_fpu [Fin 0.5] (Fin (3 + 1 / 2 ^ 51)) (frame 1) 0 = Fin (1501199875790165 / 2 ^ 53) \<and>
   ttc_fl grid_fpu [Fin 0.5] (Fin (3 + 1 / 2 ^ 50)) (frame 1) 0 = Fin (1501199875790165 / 2 ^ 53)"
  by (simp add: ttc_fl_def r_hat_fl_def rnd_def grid_fpu_def frame_def to_grid_def round_even_def
        minus_double_def)

text \<open>
  C7 as stated fails, in three ways. With the range inside the perimeter (0.2 against
  0.3, beam angle 0) the time to collision is negative and grows from -0.1 to -0.05 when
  the speed goes from 1 to 2. On a beam pointing backwards (angle \<open>pi\<close>, range 1) the
  closing velocity is positive for the speeds -2 and -1, and the time to collision grows
  from 0.35 to 0.7 when the speed goes from -2 to -1. With rounding (range 1, perimeter
  0.5, beam angle 0) the time to collision is the same, \<open>1501199875790165 / 2 ^ 53\<close>, at
  the speed \<open>3 + 1 / 2 ^ 51\<close> and at the next larger one \<open>3 + 1 / 2 ^ 50\<close>.
\<close>

theorem ttc_not_decreasing:
  "Fin 0 < r_hat (Fin 1) (frame 0.2) 0 \<and> Fin 0 < r_hat (Fin 2) (frame 0.2) 0 \<and>
   \<not> ttc [Fin 0.3] (Fin 2) (frame 0.2) 0 < ttc [Fin 0.3] (Fin 1) (frame 0.2) 0 \<and>
   Fin 0 < r_hat (Fin (- 2)) (rear_frame 1) 0 \<and> Fin 0 < r_hat (Fin (- 1)) (rear_frame 1) 0 \<and>
   \<not> ttc [Fin 0.3] (Fin (- 1)) (rear_frame 1) 0 < ttc [Fin 0.3] (Fin (- 2)) (rear_frame 1) 0 \<and>
   Fin 0 < r_hat_fl grid_fpu (Fin (3 + 1 / 2 ^ 51)) (frame 1) 0 \<and>
   Fin 0 < r_hat_fl grid_fpu (Fin (3 + 1 / 2 ^ 50)) (frame 1) 0 \<and>
   \<not> ttc_fl grid_fpu [Fin 0.5] (Fin (3 + 1 / 2 ^ 50)) (frame 1) 0
       < ttc_fl grid_fpu [Fin 0.5] (Fin (3 + 1 / 2 ^ 51)) (frame 1) 0"
  using grid_tie by (simp add: r_hat_def ttc_def frame_def rear_frame_def minus_double_def)

text \<open>
  In exact arithmetic, a finite range \<open>r\<close> beyond a finite perimeter entry \<open>p\<close> and forward
  speeds \<open>0 < s1 < s2\<close> with a positive closing velocity give a strictly smaller time to
  collision at \<open>s2\<close>.
\<close>

lemma ttc_exact_decreasing:
  assumes "ranges msg ! i = Fin r" and "perim ! i = Fin p" and "p < r"
    and "0 < s1" and "s1 < s2"
    and "Fin 0 < r_hat (Fin s1) msg i"
  shows "ttc perim (Fin s2) msg i < ttc perim (Fin s1) msg i"
proof -
  define c where "c = cos (real i * angle_increment msg + angle_min msg)"
  from assms have "0 < s1 * c" by (simp add: r_hat_Fin c_def)
  with \<open>0 < s1\<close> have c: "0 < c" by (simp add: zero_less_mult_iff)
  with assms have pos: "0 < s1 * c" "0 < s2 * c" "s1 * c < s2 * c" by simp_all
  from \<open>p < r\<close> have d: "0 < r - p" by simp
  have "(r - p) / (s2 * c) < (r - p) / (s1 * c)"
    using d pos by (simp add: divide_strict_left_mono)
  with pos c assms show ?thesis
    by (simp add: ttc_def r_hat_Fin c_def [symmetric] minus_double_def)
qed

lemma pos_cases:
  assumes "Fin 0 < (x::double)"
  obtains a where "x = Fin a" and "0 < a" | "x = PInf"
  using assms by (cases x) auto

lemma ge_zero_cases:
  assumes "Fin 0 \<le> (x::double)" and "x \<noteq> PInf"
  obtains q where "x = Fin q" and "0 \<le> q"
  using assms by (cases x) auto

text \<open>
  C7, amended. Let the rounding of the \<open>double\<close> operations be monotone and keep 0, as
  rounding to nearest does. For a finite range \<open>r\<close> beyond a finite perimeter entry \<open>p\<close> of
  the beam, whose difference does not overflow, and forward speeds \<open>0 < s1 < s2\<close> of which
  \<open>s1\<close> has a positive computed closing velocity on the beam, the computed time to
  collision at \<open>s2\<close> is not above the one at \<open>s1\<close>.
\<close>

theorem ttc_nonincreasing:
  assumes mono: "\<And>x y. x \<le> y \<Longrightarrow> fl64 u x \<le> fl64 u y" and zero: "fl64 u 0 = Fin 0"
    and rng: "ranges scan_msg ! i = Fin r" and per: "perim ! i = Fin p" and "p < r"
    and fin: "fl64 u (r - p) \<noteq> PInf"
    and "0 < s1" and "s1 < s2"
    and pos: "Fin 0 < r_hat_fl u (Fin s1) scan_msg i"
  shows "ttc_fl u perim (Fin s2) scan_msg i \<le> ttc_fl u perim (Fin s1) scan_msg i"
proof -
  define c where
    "c = cos32 u (fl32 u (fl32 u (fl32 u (real i) * angle_increment scan_msg) + angle_min scan_msg))"
  have rh: "r_hat_fl u (Fin s) scan_msg i = fl64 u (s * c)" for s
    by (simp add: r_hat_fl_def rnd_def c_def)
  have x1: "Fin 0 < fl64 u (s1 * c)" using pos by (simp add: rh)
  have c: "0 < c"
  proof (rule ccontr)
    assume "\<not> 0 < c"
    with \<open>0 < s1\<close> have "s1 * c \<le> 0" by (simp add: mult_le_0_iff)
    then have "fl64 u (s1 * c) \<le> fl64 u 0" by (rule mono)
    with zero x1 show False by (cases "fl64 u (s1 * c)") auto
  qed
  with \<open>s1 < s2\<close> have "s1 * c \<le> s2 * c" by simp
  then have x12: "fl64 u (s1 * c) \<le> fl64 u (s2 * c)" by (rule mono)
  from \<open>p < r\<close> have "0 \<le> r - p" by simp
  then have "fl64 u 0 \<le> fl64 u (r - p)" by (rule mono)
  with zero fin obtain q where q: "fl64 u (r - p) = Fin q" "0 \<le> q"
    by (auto elim: ge_zero_cases)
  have tt: "ttc_fl u perim (Fin s) scan_msg i = rnd (fl64 u) (Fin q / fl64 u (s * c))" for s
    by (simp add: ttc_fl_def rh rng per minus_double_def) (simp add: rnd_def q)
  from x1 show ?thesis
  proof (cases rule: pos_cases)
    case PInf: 2
    with x12 have "fl64 u (s2 * c) = PInf" by (cases "fl64 u (s2 * c)") auto
    with PInf zero show ?thesis by (simp add: tt rnd_def)
  next
    case (1 a)
    have t1: "ttc_fl u perim (Fin s1) scan_msg i = fl64 u (q / a)"
      using 1 by (simp add: tt rnd_def)
    from x12 1 have "Fin 0 < fl64 u (s2 * c)"
      by (cases "fl64 u (s2 * c)") auto
    then show ?thesis
    proof (cases rule: pos_cases)
      case (1 b)
      with x12 \<open>fl64 u (s1 * c) = Fin a\<close> have "a \<le> b" by simp
      with q \<open>0 < a\<close> have "q / b \<le> q / a" by (simp add: frac_le)
      then have "fl64 u (q / b) \<le> fl64 u (q / a)" by (rule mono)
      with 1 t1 show ?thesis by (simp add: tt rnd_def)
    next
      case 2
      from q \<open>0 < a\<close> have "0 \<le> q / a" by simp
      then have "fl64 u 0 \<le> fl64 u (q / a)" by (rule mono)
      with 2 t1 zero show ?thesis by (simp add: tt rnd_def)
    qed
  qed
qed

text \<open>
  Range 1 against perimeter 0.3 on the beam at \<open>pi / 3\<close>, without rounding: 0.7 at speed 2
  is below 1.4 at speed 1. Range 1 against perimeter 0.5 on the beam at 0, rounded to the
  multiples of \<open>1 / 2 ^ 55\<close>: the two neighbouring speeds give the same value.
\<close>

theorem ttc_nonincreasing_witness:
  "ttc_fl exact_fpu [Fin 0.3] (Fin 2) (side_frame 1) 0
     \<le> ttc_fl exact_fpu [Fin 0.3] (Fin 1) (side_frame 1) 0 \<and>
   ttc_fl exact_fpu [Fin 0.3] (Fin 2) (side_frame 1) 0 = Fin 0.7 \<and>
   ttc_fl exact_fpu [Fin 0.3] (Fin 1) (side_frame 1) 0 = Fin 1.4 \<and>
   ttc_fl grid_fpu [Fin 0.5] (Fin (3 + 1 / 2 ^ 50)) (frame 1) 0
     \<le> ttc_fl grid_fpu [Fin 0.5] (Fin (3 + 1 / 2 ^ 51)) (frame 1) 0"
proof -
  have e: "r_hat_fl exact_fpu (Fin s) (side_frame 1) 0 = Fin (s / 2)" for s
    by (simp add: r_hat_fl_def rnd_def exact_fpu_def side_frame_def cos_60)
  have "ttc_fl exact_fpu [Fin 0.3] (Fin 2) (side_frame 1) 0
      \<le> ttc_fl exact_fpu [Fin 0.3] (Fin 1) (side_frame 1) 0"
  proof (rule ttc_nonincreasing [where r = 1 and p = "0.3"])
    show "Fin 0 < r_hat_fl exact_fpu (Fin 1) (side_frame 1) 0" by (simp add: e)
  qed (simp_all add: exact_fpu_def side_frame_def)
  moreover have "ttc_fl exact_fpu [Fin 0.3] (Fin 2) (side_frame 1) 0 = Fin 0.7"
    "ttc_fl exact_fpu [Fin 0.3] (Fin 1) (side_frame 1) 0 = Fin 1.4"
    by (simp_all add: ttc_fl_def e) (simp_all add: exact_fpu_def rnd_def side_frame_def minus_double_def)
  moreover have "ttc_fl grid_fpu [Fin 0.5] (Fin (3 + 1 / 2 ^ 50)) (frame 1) 0
      \<le> ttc_fl grid_fpu [Fin 0.5] (Fin (3 + 1 / 2 ^ 51)) (frame 1) 0"
  proof (rule ttc_nonincreasing [where r = 1 and p = "0.5"])
    show "fl64 grid_fpu x \<le> fl64 grid_fpu y" if "x \<le> y" for x y
      using that by (simp add: grid_fpu_def to_grid_mono)
    show "fl64 grid_fpu 0 = Fin 0" by (simp add: grid_fpu_def to_grid_0)
    show "Fin 0 < r_hat_fl grid_fpu (Fin (3 + 1 / 2 ^ 51)) (frame 1) 0" using grid_tie by simp
  qed (simp_all add: grid_fpu_def frame_def)
  ultimately show ?thesis by blast
qed

section \<open>What compute\_car\_perim returns\<close>

lemma vec_assign_elems_Nil:
  "vec_assign v i x = Some v' \<Longrightarrow> elems v = [] \<Longrightarrow>
     elems v' = [] \<and> vcap v' = vcap v \<and> raw v' = (raw v)(i \<mapsto> x) \<and> i < vcap v"
  by (auto simp: vec_assign_def split: if_splits)

text \<open>The loop never changes the size of the vector: it stays empty.\<close>

lemma perim_loop_elems:
  "perim_loop c l a i v = Some v' \<Longrightarrow> elems v = [] \<Longrightarrow> elems v' = []"
proof (induction c l a i v rule: perim_loop.induct)
  case (1 c l a i v)
  show ?case
  proof (cases "Fin (real i) < num_scans l")
    case True
    with "1.prems" obtain w where w: "vec_assign v i (perim_at c a) = Some w"
      and r: "perim_loop c l a (Suc i) w = Some v'"
      by (auto simp: perim_loop.simps [of c l a i v] split: option.splits)
    from w "1.prems" have "elems w = []" by (simp add: vec_assign_elems_Nil)
    with "1.IH" [OF True w r] show ?thesis .
  next
    case False
    with "1.prems" show ?thesis by (simp add: perim_loop.simps [of c l a i v])
  qed
qed

lemma compute_car_perim_size:
  "compute_car_perim c l = Some v \<Longrightarrow> elems v = []"
proof -
  assume "compute_car_perim c l = Some v"
  then obtain n i where "perim_loop c l (min_angle l) i (vec_reserve n vec_empty) = Some v"
    by (auto simp: compute_car_perim_def Let_def split: option.splits)
  moreover have "elems (vec_reserve n vec_empty) = []"
    by (simp add: vec_reserve_def vec_empty_def)
  ultimately show ?thesis by (rule perim_loop_elems)
qed

lemma lt_mono_index: "Fin (real j) < n \<Longrightarrow> i \<le> j \<Longrightarrow> Fin (real i) < n"
  by (cases n) auto

text \<open>Every cell the loop writes holds the value for the one angle it was started with.\<close>

lemma perim_loop_raw:
  "perim_loop c l a i v = Some v' \<Longrightarrow> elems v = [] \<Longrightarrow>
     raw v' j = (if i \<le> j \<and> Fin (real j) < num_scans l then Some (perim_at c a) else raw v j)"
proof (induction c l a i v rule: perim_loop.induct)
  case (1 c l a i v)
  show ?case
  proof (cases "Fin (real i) < num_scans l")
    case True
    with "1.prems" obtain w where w: "vec_assign v i (perim_at c a) = Some w"
      and r: "perim_loop c l a (Suc i) w = Some v'"
      by (auto simp: perim_loop.simps [of c l a i v] split: option.splits)
    from w "1.prems" have e: "elems w = []" and rw: "raw w = (raw v)(i \<mapsto> perim_at c a)"
      by (simp_all add: vec_assign_elems_Nil)
    have "raw v' j =
        (if Suc i \<le> j \<and> Fin (real j) < num_scans l then Some (perim_at c a) else raw w j)"
      using "1.IH" [OF True w r e] .
    with rw True show ?thesis
      by (cases "j = i") auto
  next
    case False
    then have "\<not> (i \<le> j \<and> Fin (real j) < num_scans l)"
      using lt_mono_index [of j "num_scans l" i] by blast
    with False "1.prems" show ?thesis by (auto simp: perim_loop.simps [of c l a i v])
  qed
qed

lemma perim_at_0: "perim_at scenario_car (Fin 0) = Fin 0.1"
  by (simp add: perim_at_def fourth_quadrant_def scenario_car_def minus_double_def std_min_def)

lemma perim_at_90: "perim_at scenario_car (Fin 0 + Fin 1 * Fin (pi / 2)) = Fin 0.28"
  by (simp add: perim_at_def second_quadrant_def scenario_car_def minus_double_def std_min_def)

lemma two_beam_run:
  "compute_car_perim scenario_car two_beam_lidar =
     Some \<lparr>elems = [], vcap = 2, raw = [0 \<mapsto> Fin 0.1, 1 \<mapsto> Fin 0.1]\<rparr>"
  by (simp add: compute_car_perim_def two_beam_lidar_def Let_def vec_reserve_def vec_empty_def
        perim_loop.simps vec_assign_def perim_at_0)

text \<open>
  C3, on the scenario car and the scanner of two beams at \<open>0\<close> and \<open>pi / 2\<close>: the value
  the loop stores for beam 1 is 0.1, the formula at \<open>angle_min\<close>, where the formula at the
  beam's own angle \<open>angle_min + 1 * angle_increment = pi / 2\<close> gives 0.28.
\<close>

theorem perimeter_entry_angle:
  "map_option (\<lambda>v. raw v 1) (compute_car_perim scenario_car two_beam_lidar) = Some (Some (Fin 0.1)) \<and>
   perim_at scenario_car (min_angle two_beam_lidar) = Fin 0.1 \<and>
   perim_at scenario_car (min_angle two_beam_lidar + Fin 1 * scan_inc two_beam_lidar) = Fin 0.28"
proof -
  have "map_option (\<lambda>v. raw v 1) (compute_car_perim scenario_car two_beam_lidar) =
      Some (Some (Fin 0.1))"
    by (simp add: two_beam_run)
  moreover have "perim_at scenario_car (min_angle two_beam_lidar) = Fin 0.1"
    by (simp add: two_beam_lidar_def perim_at_0)
  moreover have
    "perim_at scenario_car (min_angle two_beam_lidar + Fin 1 * scan_inc two_beam_lidar) = Fin 0.28"
    using perim_at_90 by (simp add: two_beam_lidar_def)
  ultimately show ?thesis by blast
qed

text \<open>
  C4, on the same input: the vector \<open>compute_car_perim\<close> returns for the scanner of two
  beams has size 0.
\<close>

theorem perimeter_table_size:
  "map_option (\<lambda>v. length (elems v)) (compute_car_perim scenario_car two_beam_lidar) = Some 0 \<and>
   num_scans two_beam_lidar = Fin 2"
  by (simp add: two_beam_run) (simp add: two_beam_lidar_def)

section \<open>The quadrant formulas at the quadrant boundaries\<close>

text \<open>
  For a car of positive width with the scanner between the axles, the formulas of the
  adjacent quadrants agree at \<open>0\<close>, at \<open>pi / 2\<close> and at \<open>pi\<close> against \<open>- pi\<close>.
\<close>

lemma quadrants_agree_elsewhere:
  assumes "car_data = \<lparr>width = Fin w, wheelbase = Fin wb, base_link = Fin bl\<rparr>"
    and "0 < w" and "0 < bl" and "bl < wb"
  shows "first_quadrant car_data (Fin 0) = Fin (w / 2)"
    and "fourth_quadrant car_data (Fin 0) = Fin (w / 2)"
    and "first_quadrant car_data (Fin (pi / 2)) = Fin (wb - bl)"
    and "second_quadrant car_data (Fin (pi / 2)) = Fin (wb - bl)"
    and "second_quadrant car_data (Fin pi) = Fin (w / 2)"
    and "third_quadrant car_data (Fin (- pi)) = Fin (w / 2)"
  using assms
  by (simp_all add: first_quadrant_def second_quadrant_def third_quadrant_def fourth_quadrant_def
        minus_double_def std_min_def)

lemma quadrants_at_minus_90:
  assumes "car_data = \<lparr>width = Fin w, wheelbase = Fin wb, base_link = Fin bl\<rparr>"
    and "0 < w" and "0 < bl"
  shows "third_quadrant car_data (Fin (- pi / 2)) = Fin bl"
    and "fourth_quadrant car_data (Fin (- pi / 2)) = Fin (- bl)"
  using assms
  by (simp_all add: third_quadrant_def fourth_quadrant_def minus_double_def std_min_def)

text \<open>Inside the fourth quadrant the formula is negative.\<close>

lemma fourth_quadrant_negative:
  assumes "car_data = \<lparr>width = Fin w, wheelbase = Fin wb, base_link = Fin bl\<rparr>"
    and "0 < w" and "0 < bl" and "- (pi / 2) \<le> a" and "a < 0"
  shows "fourth_quadrant car_data (Fin a) = Fin (bl / sin a) \<and> bl / sin a < 0"
proof -
  have "0 < sin (- a)" using assms by (intro sin_gt_zero) (auto intro: less_trans)
  then have s: "sin a < 0" by simp
  have c: "0 \<le> cos a" using assms by (intro cos_ge_zero) simp_all
  have n: "bl / sin a < 0" using s \<open>0 < bl\<close> by (simp add: divide_pos_neg)
  have br: "base_link car_data / dcos (Fin (pi / 2) - Fin a) = Fin (bl / sin a)"
    using s assms(1) by (simp add: minus_double_def cos_diff)
  have "\<not> (width car_data / Fin 2) / dcos (- Fin a) < Fin (bl / sin a)"
  proof (cases "cos a = 0")
    case True
    then show ?thesis using assms by simp
  next
    case False
    with c have "0 < cos a" by simp
    then have "0 < w / 2 / cos a" using \<open>0 < w\<close> by simp
    with n have "\<not> w / 2 / cos a < bl / sin a" by linarith
    then show ?thesis using assms(1) False by simp
  qed
  with br n show ?thesis by (simp add: fourth_quadrant_def std_min_def Let_def)
qed

text \<open>
  C8, at the boundary \<open>- pi / 2\<close> on the scenario car: the formula of the third quadrant
  gives 0.05 and the formula of the fourth quadrant, which is the one the code takes at
  this angle, gives -0.05.
\<close>

theorem quadrants_disagree:
  "third_quadrant scenario_car (Fin (- pi / 2)) = Fin 0.05 \<and>
   fourth_quadrant scenario_car (Fin (- pi / 2)) = Fin (- 0.05) \<and>
   perim_at scenario_car (Fin (- pi / 2)) = Fin (- 0.05)"
  by (simp add: perim_at_def third_quadrant_def fourth_quadrant_def scenario_car_def
        minus_double_def std_min_def)

section \<open>The scanner geometry read from the sample frame\<close>

lemma to_int_dceil: "to_int (dceil x) = Some n \<Longrightarrow> \<exists>a. x = Fin a \<and> n = \<lceil>a\<rceil>"
  by (cases x) (auto simp: Let_def split: if_splits)

text \<open>The constructor of WallFollow, when it returns, has the ceiling in \<open>num_scans\<close>.\<close>

lemma WallFollow_init_num_scans:
  assumes "WallFollow_init (Some m) L0 = Inr w"
  shows "angle_increment m \<noteq> 0 \<and>
         wf_num_scans (lidar_data w) = \<lceil>(angle_max m - angle_min m) / angle_increment m\<rceil>"
proof -
  let ?q = "(Fin (angle_max m) - Fin (angle_min m)) / Fin (angle_increment m)"
  from assms obtain n where n: "to_int (dceil ?q) = Some n" and w: "wf_num_scans (lidar_data w) = n"
    by (auto simp: WallFollow_init_def Let_def split: option.splits if_splits)
  from to_int_dceil [OF n] obtain a where a: "?q = Fin a" "n = \<lceil>a\<rceil>" by blast
  from a(1) have "angle_increment m \<noteq> 0 \<and> a = (angle_max m - angle_min m) / angle_increment m"
    by (auto simp: minus_double_def split: if_splits)
  with a w show ?thesis by simp
qed

lemma WallFollow_init_sample:
  "WallFollow_init (Some sample_frame) (Fin 1) = Inr follower"
  by (simp add: WallFollow_init_def sample_frame_def follower_def Let_def minus_double_def int_ok_def)

text \<open>
  C5, on the sample frame of four beams from \<open>0\<close> to \<open>pi\<close>: the constructor of the Safety
  node stores \<open>angle_max\<close> into \<open>min_angle\<close> and gets \<open>num_scans = 0\<close>; the ceiling of
  \<open>(angle_max - angle_min) / angle_increment\<close> is 4, which is what the constructor of
  WallFollow stores.
\<close>

theorem safety_num_scans:
  "Safety_init car_params (Some sample_frame) unset_lidar unset_car = Some started \<and>
   num_scans (lidar started) = Fin 0 \<and>
   min_angle (lidar started) = Fin (angle_max sample_frame) \<and>
   dceil ((Fin (angle_max sample_frame) - Fin (angle_min sample_frame))
            / Fin (angle_increment sample_frame)) = Fin 4 \<and>
   WallFollow_init (Some sample_frame) (Fin 1) = Inr follower \<and>
   wf_num_scans (lidar_data follower) = 4"
  by (simp add: Safety_init_sample WallFollow_init_sample)
     (simp add: started_def follower_def sample_frame_def minus_double_def)

section \<open>Readings that are no measurement\<close>

text \<open>
  A reading of NaN or of plus infinity publishes nothing, whatever the threshold: the
  comparison of its time to collision with the threshold is false.
\<close>

lemma scan_beam_nan_inf:
  assumes "ranges msg ! i = NaN \<or> ranges msg ! i = PInf" and "car_perimeter s ! i = Fin p"
  shows "scan_beam s msg i = []"
proof (cases "r_hat (speed s) msg i \<le> Fin 0")
  case True
  then show ?thesis by (simp add: scan_beam_def)
next
  case False
  have "\<not> (ranges msg ! i - Fin p) / r < t" if "\<not> r \<le> Fin 0" for r t :: double
    using assms(1) that by (cases r; cases t) (auto simp: minus_double_def)
  with False assms(2) show ?thesis by (simp add: scan_beam_def ttc_def)
qed

lemma lidar_cb_no_return:
  "lidar_cb follower no_return_frame =
     Some \<lparr>val_a = PInf, val_b = Fin 1, val_alpha = NaN, val_dt = NaN\<rparr>"
  by (simp add: lidar_cb_def follower_def no_return_frame_def sample_frame_def vec_at_def
        minus_double_def cos_45 sin_45)

text \<open>
  C2, on two inputs. With perimeter 0.3 and speed 2, the frame whose single range is 0
  engages the brake: the reading enters the time to collision as a distance of zero. The
  wall follower built from the sample frame, on a frame whose beam \<open>a_idx\<close> reads
  infinity, goes on to compute \<open>alpha\<close> and \<open>dt\<close>, both NaN.
\<close>

theorem invalid_readings_used:
  "brake_engaged (scan_callback moving (frame 0)) \<and>
   ttc (car_perimeter moving) (speed moving) (frame 0) 0 = Fin (- 0.15) \<and>
   WallFollow_init (Some sample_frame) (Fin 1) = Inr follower \<and>
   lidar_cb follower no_return_frame =
     Some \<lparr>val_a = PInf, val_b = Fin 1, val_alpha = NaN, val_dt = NaN\<rparr>"
  by (simp add: WallFollow_init_sample lidar_cb_no_return)
     (simp add: brake_engaged_def scan_callback_def scan_beam_def moving_def frame_def
        ttc_def r_hat_def minus_double_def)

section \<open>What the wall estimator computes\<close>

text \<open>On finite readings with a non-zero denominator, \<open>alpha\<close> and \<open>dt\<close> are the two formulas.\<close>

lemma lidar_cb_finite:
  assumes "vec_at (ranges msg) (a_idx w) = Some (Fin x)"
    and "vec_at (ranges msg) (b_idx w) = Some (Fin y)"
    and "theta w = Fin t" and "x * sin t \<noteq> 0"
  shows "lidar_cb w msg =
     Some \<lparr>val_a = Fin x, val_b = Fin y,
           val_alpha = Fin (arctan ((x * cos t - y) / (x * sin t))),
           val_dt = Fin (y * cos (arctan ((x * cos t - y) / (x * sin t))))\<rparr>"
  using assms by (simp add: lidar_cb_def minus_double_def)

lemma lidar_cb_tilted:
  "lidar_cb follower tilted_frame =
     Some \<lparr>val_a = Fin 1, val_b = Fin (sqrt 2), val_alpha = Fin (pi / 4), val_dt = Fin 1\<rparr>"
proof -
  have "(sqrt 2 / 2 - sqrt 2) / (- (sqrt 2 / 2)) = (1::real)"
    by (simp add: field_simps)
  then show ?thesis
    by (simp add: lidar_cb_def follower_def tilted_frame_def sample_frame_def vec_at_def
        minus_double_def cos_45 sin_45 arctan_one)
qed

lemma lookahead_differs:
  "Fin (1 + sqrt 2 / 2) \<notin> {Fin 1, Fin (sqrt 2), Fin (pi / 4)}"
proof -
  have a: "sqrt 2 < 2" by (rule real_less_lsqrt) simp_all
  have b: "0 < sqrt 2" by simp
  have "1 + sqrt 2 / 2 \<noteq> 1" using b by linarith
  moreover have "1 + sqrt 2 / 2 \<noteq> sqrt 2" using a by linarith
  moreover have "1 + sqrt 2 / 2 \<noteq> pi / 4" using b pi_less_4 by linarith
  ultimately show ?thesis by simp
qed

text \<open>
  C6, on the wall follower built from the sample frame (with 1 in \<open>L\<close>) and a frame with
  \<open>a = 1\<close> and \<open>b = sqrt 2\<close>: \<open>lidar_cb\<close> computes \<open>alpha = pi / 4\<close> and \<open>dt = 1\<close> and nothing
  else; the lookahead projection \<open>dt + L * sin alpha\<close> would be \<open>1 + sqrt 2 / 2\<close>, which is
  none of the values computed.
\<close>

theorem lidar_cb_no_lookahead:
  "WallFollow_init (Some sample_frame) (Fin 1) = Inr follower \<and>
   lidar_cb follower tilted_frame =
     Some \<lparr>val_a = Fin 1, val_b = Fin (sqrt 2), val_alpha = Fin (pi / 4), val_dt = Fin 1\<rparr> \<and>
   Fin 1 + L follower * dsin (Fin (pi / 4)) = Fin (1 + sqrt 2 / 2) \<and>
   Fin (1 + sqrt 2 / 2) \<notin> {Fin 1, Fin (sqrt 2), Fin (pi / 4)}"
  using lookahead_differs
  by (simp add: WallFollow_init_sample lidar_cb_tilted) (simp add: follower_def sin_45)

section \<open>The farthest and the closest point\<close>

text \<open>One round of the loop of \<open>scan_cb\<close> keeps the first largest and the first smallest.\<close>

lemma first_max_step:
  assumes "first_max msg i k" and "i < length (ranges msg)" and "NaN \<notin> set (ranges msg)"
  shows "first_max msg (Suc i) (if ranges msg ! k < ranges msg ! i then i else k)"
proof -
  from assms have "k < length (ranges msg)" by (simp add: first_max_def)
  with assms(2) have "ranges msg ! k \<in> set (ranges msg)" "ranges msg ! i \<in> set (ranges msg)"
    by simp_all
  with assms(3) have nn: "ranges msg ! k \<noteq> NaN" "ranges msg ! i \<noteq> NaN"
    by force+
  show ?thesis
  proof (cases "ranges msg ! k < ranges msg ! i")
    case True
    have "ranges msg ! j < ranges msg ! i" if "j < i" for j
      using assms(1) that True by (auto simp: first_max_def intro: double_le_less_trans)
    then show ?thesis
      using True nn by (auto simp: first_max_def less_Suc_eq double_le_refl double_less_imp_le)
  next
    case False
    then have "ranges msg ! i \<le> ranges msg ! k" using nn by (simp add: double_not_less)
    then show ?thesis
      using False assms(1) by (auto simp: first_max_def less_Suc_eq)
  qed
qed

lemma first_min_step:
  assumes "first_min msg i k" and "i < length (ranges msg)" and "NaN \<notin> set (ranges msg)"
  shows "first_min msg (Suc i) (if ranges msg ! k > ranges msg ! i then i else k)"
proof -
  from assms have "k < length (ranges msg)" by (simp add: first_min_def)
  with assms(2) have "ranges msg ! k \<in> set (ranges msg)" "ranges msg ! i \<in> set (ranges msg)"
    by simp_all
  with assms(3) have nn: "ranges msg ! k \<noteq> NaN" "ranges msg ! i \<noteq> NaN"
    by force+
  show ?thesis
  proof (cases "ranges msg ! i < ranges msg ! k")
    case True
    have "ranges msg ! i < ranges msg ! j" if "j < i" for j
      using assms(1) that True by (auto simp: first_min_def intro: double_less_le_trans)
    then show ?thesis
      using True nn by (auto simp: first_min_def less_Suc_eq double_le_refl double_less_imp_le)
  next
    case False
    then have "ranges msg ! k \<le> ranges msg ! i" using nn by (simp add: double_not_less)
    then show ?thesis
      using False assms(1) by (auto simp: first_min_def less_Suc_eq)
  qed
qed

lemma scan_cb_loop_extrema:
  assumes "NaN \<notin> set (ranges msg)" and "i \<le> length (ranges msg)"
    and "first_max msg i kx" and "first_min msg i kn"
  shows "\<exists>kx' kn'.
           scan_cb_loop msg i (at_beam msg kx, at_beam msg kn) = (at_beam msg kx', at_beam msg kn')
           \<and> first_max msg (length (ranges msg)) kx' \<and> first_min msg (length (ranges msg)) kn'"
  using assms
proof (induction "length (ranges msg) - i" arbitrary: i kx kn)
  case 0
  then have "\<not> i < length (ranges msg)" by simp
  then have "scan_cb_loop msg i (at_beam msg kx, at_beam msg kn) = (at_beam msg kx, at_beam msg kn)"
    by (subst scan_cb_loop.simps) simp
  moreover have "i = length (ranges msg)" using 0 by simp
  ultimately show ?case using 0 by auto
next
  case (Suc d)
  then have lt: "i < length (ranges msg)" by simp
  let ?kx = "if ranges msg ! kx < ranges msg ! i then i else kx"
  let ?kn = "if ranges msg ! kn > ranges msg ! i then i else kn"
  have "d = length (ranges msg) - Suc i" using Suc.hyps(2) by simp
  moreover have "Suc i \<le> length (ranges msg)" using lt by simp
  moreover have "first_max msg (Suc i) ?kx" using Suc.prems lt by (intro first_max_step)
  moreover have "first_min msg (Suc i) ?kn" using Suc.prems lt by (intro first_min_step)
  ultimately obtain kx' kn' where
    r: "scan_cb_loop msg (Suc i) (at_beam msg ?kx, at_beam msg ?kn) =
          (at_beam msg kx', at_beam msg kn')"
    and m: "first_max msg (length (ranges msg)) kx'" "first_min msg (length (ranges msg)) kn'"
    using Suc.hyps(1) [of "Suc i" ?kx ?kn] Suc.prems(1) by blast
  have "scan_cb_loop msg i (at_beam msg kx, at_beam msg kn) =
        scan_cb_loop msg (Suc i) (at_beam msg ?kx, at_beam msg ?kn)"
    using lt by (subst scan_cb_loop.simps) (simp add: at_beam_def beam_angle_def Let_def)
  with r m show ?case by auto
qed

text \<open>
  C10. For a frame whose \<open>ranges\<close> is not empty and holds no NaN, \<open>scan_cb\<close> publishes one
  record on the farther-point topic and one on the closest-point topic; their distances
  are the largest and the smallest reading, and their angles are
  \<open>angle_min + k * angle_increment\<close> for the first index \<open>k\<close> that holds that reading.
\<close>

theorem scan_cb_extrema:
  assumes "ranges msg \<noteq> []" and "NaN \<notin> set (ranges msg)"
  shows "\<exists>kx kn.
           scan_cb msg = Some [FartherPoint (at_beam msg kx), ClosestPoint (at_beam msg kn)]
           \<and> first_max msg (length (ranges msg)) kx \<and> first_min msg (length (ranges msg)) kn"
proof -
  from assms obtain r0 rest where rs: "ranges msg = r0 # rest" by (cases "ranges msg") auto
  with assms have "r0 \<noteq> NaN" by auto
  then have "first_max msg 1 0" "first_min msg 1 0"
    using rs by (simp_all add: first_max_def first_min_def double_le_refl)
  moreover have "1 \<le> length (ranges msg)" using rs by simp
  ultimately obtain kx kn where
    r: "scan_cb_loop msg 1 (at_beam msg 0, at_beam msg 0) = (at_beam msg kx, at_beam msg kn)"
    and m: "first_max msg (length (ranges msg)) kx" "first_min msg (length (ranges msg)) kn"
    using scan_cb_loop_extrema [OF assms(2), of 1 0 0] by blast
  have "at_beam msg 0 = \<lparr>distance = r0, angle = Fin (angle_min msg)\<rparr>"
    using rs by (simp add: at_beam_def beam_angle_def)
  with r have "scan_cb msg = Some [FartherPoint (at_beam msg kx), ClosestPoint (at_beam msg kn)]"
    using rs by (simp add: scan_cb_def)
  with m show ?thesis by blast
qed

text \<open>
  On the frame of five beams, whose largest reading (infinity) is first at index 1 and
  whose smallest (1) is first at index 2.
\<close>

lemma five_beams_run:
  "scan_cb five_beams =
     Some [FartherPoint \<lparr>distance = PInf, angle = Fin (- 1 / 2)\<rparr>,
           ClosestPoint \<lparr>distance = Fin 1, angle = Fin 0\<rparr>]"
  by (simp add: scan_cb_def five_beams_def scan_cb_loop.simps Let_def)

theorem scan_cb_extrema_witness:
  "(\<exists>kx kn.
     scan_cb five_beams =
       Some [FartherPoint (at_beam five_beams kx), ClosestPoint (at_beam five_beams kn)]
     \<and> first_max five_beams (length (ranges five_beams)) kx
     \<and> first_min five_beams (length (ranges five_beams)) kn)
   \<and> scan_cb five_beams = Some [FartherPoint (at_beam five_beams 1), ClosestPoint (at_beam five_beams 2)]
   \<and> first_max five_beams 5 1 \<and> first_min five_beams 5 2"
proof -
  have "{0..<5::nat} = {0, 1, 2, 3, 4}" "{0..<2::nat} = {0, 1}" "{0..<1::nat} = {0}" by auto
  then have "first_max five_beams 5 1" "first_min five_beams 5 2"
    by (simp_all add: first_max_def first_min_def five_beams_def)
  moreover have
    "scan_cb five_beams = Some [FartherPoint (at_beam five_beams 1), ClosestPoint (at_beam five_beams 2)]"
    by (simp add: five_beams_run) (simp add: at_beam_def beam_angle_def five_beams_def)
  ultimately show ?thesis
    using scan_cb_extrema [of five_beams] by (simp add: five_beams_def)
qed

end
